theory Spec2Isabelle
  imports Main
begin

section \<open>JavaScript values and exceptions\<close>

text \<open>
  The module \<^verbatim>\<open>src/modules/auth.js\<close> works on untyped JavaScript values: request bodies
  parsed from JSON, option objects, and whatever an authentication provider returns.
  \<open>jsval\<close> is the type of such plain data. Numbers are restricted to integers (the module
  only tests numbers for truthiness); objects are association lists read with \<open>map_of\<close>.
  Provider functions are never stored inside a \<open>jsval\<close>: they live in the \<open>provider\<close>
  record below.
\<close>

datatype jsval =
    JUndefined
  | JNull
  | JBool bool
  | JNum int
  | JStr string
  | JArr "jsval list"
  | JObj "(string \<times> jsval) list"

text \<open>
  An exception is a value: \<open>TypeError\<close> and \<open>ReferenceError\<close> are raised by the language,
  \<open>Thrown v\<close> is whatever a provider function throws. \<open>Inl\<close> is a throw, \<open>Inr\<close> a normal
  return.
\<close>

datatype exn = TypeError | ReferenceError | Thrown jsval

type_synonym 'a outcome = "exn + 'a"

abbreviation Throw :: "exn \<Rightarrow> 'a outcome" where
  "Throw \<equiv> Inl"

abbreviation Return :: "'a \<Rightarrow> 'a outcome" where
  "Return \<equiv> Inr"

text \<open>\<^verbatim>\<open>if (v)\<close> and \<^verbatim>\<open>!v\<close>: the truthiness of a value.\<close>

fun truthy :: "jsval \<Rightarrow> bool" where
  "truthy JUndefined = False"
| "truthy JNull = False"
| "truthy (JBool b) = b"
| "truthy (JNum n) = (n \<noteq> 0)"
| "truthy (JStr s) = (s \<noteq> [])"
| "truthy (JArr xs) = True"
| "truthy (JObj kvs) = True"

text \<open>
  \<^verbatim>\<open>v.k\<close> for the keys the module reads (\<open>name\<close>, \<open>auth\<close>, \<open>functions\<close>, \<open>type\<close>, \<open>state\<close>,
  \<open>pass\<close>, \<open>cleanRecord\<close>, \<open>authType\<close>, \<open>commitRecord\<close>, \<open>token\<close>, \<open>newIdentity\<close>,
  \<open>validFunctions\<close>): none of them is a built-in property of a string, number, boolean
  or array, so reading them from anything but an object gives \<open>undefined\<close>. \<open>field\<close> is
  the read on a value known not to be \<open>undefined\<close> or \<open>null\<close>; \<open>js_prop\<close> is the read that
  throws a TypeError on those two.
\<close>

fun field :: "jsval \<Rightarrow> string \<Rightarrow> jsval" where
  "field (JObj kvs) k = (case map_of kvs k of Some v \<Rightarrow> v | None \<Rightarrow> JUndefined)"
| "field v k = JUndefined"

fun js_prop :: "jsval \<Rightarrow> string \<Rightarrow> jsval outcome" where
  "js_prop JUndefined k = Throw TypeError"
| "js_prop JNull k = Throw TypeError"
| "js_prop v k = Return (field v k)"

text \<open>\<^verbatim>\<open>o.k = v\<close> on the own properties of an object: replace in place, or append.\<close>

fun set_field :: "(string \<times> jsval) list \<Rightarrow> string \<Rightarrow> jsval \<Rightarrow> (string \<times> jsval) list" where
  "set_field [] k v = [(k, v)]"
| "set_field ((k', v') # kvs) k v =
     (if k' = k then (k, v) # kvs else (k', v') # set_field kvs k v)"

subsection \<open>Strings of numbers, property keys\<close>

text \<open>The decimal digits of a natural number, as \<^verbatim>\<open>String(n)\<close> prints them.\<close>

fun string_of_nat :: "nat \<Rightarrow> string" where
  "string_of_nat n =
     (if n < 10 then [''0123456789'' ! n]
      else string_of_nat (n div 10) @ [''0123456789'' ! (n mod 10)])"

definition string_of_int :: "int \<Rightarrow> string" where
  "string_of_int i = (if i < 0 then CHR ''-'' # string_of_nat (nat (- i)) else string_of_nat (nat i))"

text \<open>\<^verbatim>\<open>xs.join(sep)\<close> on an array of strings.\<close>

fun join :: "string \<Rightarrow> string list \<Rightarrow> string" where
  "join sep [] = []"
| "join sep [x] = x"
| "join sep (x # y # ys) = x @ sep @ join sep (y # ys)"

text \<open>
  The conversion of a value to a string, used when a value is a property key
  (\<^verbatim>\<open>authTypes[auth.type]\<close>) and inside a template literal. An array joins its elements
  with a comma, \<open>undefined\<close> and \<open>null\<close> elements printing as the empty string. A parsed
  JSON object prints as \<^verbatim>\<open>[object Object]\<close> through the inherited \<open>toString\<close>, unless
  it has an own property \<open>toString\<close> (never callable in JSON data): then the conversion
  falls back to \<open>valueOf\<close>, which gives no primitive, and throws. An integer prints in
  decimal (as JavaScript does below a magnitude of \<open>10\<^sup>2\<^sup>1\<close>).
\<close>

fun js_toString :: "jsval \<Rightarrow> string outcome"
  and elems_toString :: "jsval list \<Rightarrow> string list outcome" where
  "js_toString JUndefined = Return ''undefined''"
| "js_toString JNull = Return ''null''"
| "js_toString (JBool b) = Return (if b then ''true'' else ''false'')"
| "js_toString (JNum n) = Return (string_of_int n)"
| "js_toString (JStr s) = Return s"
| "js_toString (JArr xs) =
     (case elems_toString xs of Inl e \<Rightarrow> Throw e | Inr ss \<Rightarrow> Return (join '','' ss))"
| "js_toString (JObj kvs) =
     (if map_of kvs ''toString'' = None then Return ''[object Object]'' else Throw TypeError)"
| "elems_toString [] = Return []"
| "elems_toString (x # xs) =
     (case (if x = JUndefined \<or> x = JNull then Return [] else js_toString x) of
        Inl e \<Rightarrow> Throw e
      | Inr s \<Rightarrow> (case elems_toString xs of Inl e \<Rightarrow> Throw e | Inr ss \<Rightarrow> Return (s # ss)))"

subsection \<open>Regular expressions, array and string methods\<close>

text \<open>
  \<^verbatim>\<open>nameRegex\<close> and \<^verbatim>\<open>functionRegex\<close> are both \<^verbatim>\<open>/[A-z0-9_\-.]+/\<close>. The class \<^verbatim>\<open>A-z\<close> is the
  code range 65 to 122. The expression has no anchors, so \<^verbatim>\<open>s.match(re)\<close> finds a match as
  soon as one character of \<open>s\<close> is in the class.
\<close>

definition regex_class :: "char \<Rightarrow> bool" where
  "regex_class c =
     (let n = (of_char c :: nat)
      in (65 \<le> n \<and> n \<le> 122) \<or> (48 \<le> n \<and> n \<le> 57) \<or> n = 95 \<or> n = 45 \<or> n = 46)"

definition regex_matches :: "string \<Rightarrow> bool" where
  "regex_matches s = list_ex regex_class s"

definition regex_source :: string where
  "regex_source = ''/[A-z0-9_'' @ [CHR 0x5C] @ ''-.]+/''"

text \<open>\<^verbatim>\<open>for (let f in xs)\<close> over an array enumerates its indices, as strings.\<close>

definition for_in_keys :: "'a list \<Rightarrow> string list" where
  "for_in_keys xs = map string_of_nat [0 ..< length xs]"

text \<open>\<^verbatim>\<open>s.includes(f)\<close> on a string is the substring test.\<close>

fun substring_of :: "string \<Rightarrow> string \<Rightarrow> bool" where
  "substring_of f [] = (f = [])"
| "substring_of f (c # cs) = (take (length f) (c # cs) = f \<or> substring_of f cs)"

text \<open>
  \<^verbatim>\<open>v.includes(f)\<close> with \<open>f\<close> a string: membership in an array, the substring test on a
  string, a TypeError on any other value of plain data.
\<close>

fun js_includes :: "jsval \<Rightarrow> string \<Rightarrow> bool outcome" where
  "js_includes (JArr ys) f = Return (JStr f \<in> set ys)"
| "js_includes (JStr s) f = Return (substring_of f s)"
| "js_includes v f = Throw TypeError"

text \<open>\<^verbatim>\<open>xs.findIndex(p)\<close>: the first index whose element satisfies \<open>p\<close>, or \<open>-1\<close>.\<close>

fun findIndex :: "('a \<Rightarrow> bool) \<Rightarrow> 'a list \<Rightarrow> int" where
  "findIndex p [] = - 1"
| "findIndex p (x # xs) =
     (if p x then 0 else (let i = findIndex p xs in if i = - 1 then - 1 else i + 1))"

text \<open>
  \<^verbatim>\<open>xs.splice(i, 1)\<close>: a negative \<open>i\<close> counts from the end, the start is clamped to the
  array, and one element is removed there if there is one.
\<close>

definition splice1 :: "int \<Rightarrow> 'a list \<Rightarrow> 'a list" where
  "splice1 i xs =
     (let len = int (length xs);
          start = (if i < 0 then max (len + i) 0 else min i len)
      in take (nat start) xs @ drop (nat start + 1) xs)"

section \<open>The identity store and the providers\<close>

text \<open>
  A record of the \<^verbatim>\<open>identities\<close> array. \<open>id'\<close> is the \<^verbatim>\<open>id\<close> property (absent on the
  built-in \<open>admin\<close> record and on a clean record before \<^verbatim>\<open>addIdentity\<close> sets it). \<open>name\<close>
  is a string: a record only enters the array with the name that passed
  \<^verbatim>\<open>details.name.match\<close>. \<open>auth\<close> and \<open>functions\<close> are plain data, \<open>JUndefined\<close> when the
  property is absent.
\<close>

record identity =
  id' :: "string option"
  name :: string
  auth :: jsval
  "functions" :: jsval

type_synonym store = "identity list"

definition initial_identities :: store where
  "initial_identities =
     [\<lparr> id' = None, name = ''admin'',
        auth = JObj [(''type'', JStr ''password''), (''password'', JStr ''Pa$$w0rd''),
                     (''salt'', JStr ''fcbca933-7021-432b-836d-c1142b1f310d''),
                     (''hash'', JStr ''5a59750c5ae9eec93736464df0aabc3ff21c576078cd6fa378f0067589a715997e188a06ce98e2e4c4d01749d754b281032910e261dce397bf6b574cbc2b5345'')],
        functions = JArr [JStr ''auth'', JStr ''api''] \<rparr>]"

text \<open>
  The password provider \<^verbatim>\<open>./authProviders/password/module\<close> is not part of the sources at
  hand, so a provider is a parameter: a record of the three functions the module calls,
  each absent (\<open>None\<close>) when the provider does not export it. A provider function takes
  plain data and returns plain data or throws; it has no access to the module's
  \<^verbatim>\<open>identities\<close> variable.
\<close>

record provider =
  validate :: "(jsval \<Rightarrow> jsval outcome) option"
  commit :: "(jsval \<Rightarrow> jsval outcome) option"
  provider_authenticate :: "(jsval \<Rightarrow> jsval \<Rightarrow> jsval outcome) option"

text \<open>
  \<^verbatim>\<open>authTypes[key]\<close> on \<^verbatim>\<open>const authTypes = { password: require(...) }\<close>. Besides the own
  property \<open>password\<close>, the lookup finds the members the object literal inherits from
  \<^verbatim>\<open>Object.prototype\<close>: they are truthy and have none of the three provider functions.
\<close>

definition object_prototype_keys :: "string list" where
  "object_prototype_keys =
     [''constructor'', ''hasOwnProperty'', ''isPrototypeOf'', ''propertyIsEnumerable'',
      ''toLocaleString'', ''toString'', ''valueOf'', ''__proto__'', ''__defineGetter__'',
      ''__defineSetter__'', ''__lookupGetter__'', ''__lookupSetter__'']"

definition authTypes :: "provider \<Rightarrow> string \<Rightarrow> provider option" where
  "authTypes password key =
     (if key = ''password'' then Some password
      else if key \<in> set object_prototype_keys
        then Some \<lparr> validate = None, commit = None, provider_authenticate = None \<rparr>
      else None)"

section \<open>The validation pipeline\<close>

text \<open>
  What the functions of the module return. \<open>Plain v\<close> is an object of plain data: a failure
  \<^verbatim>\<open>{state, reason}\<close> built by the module, \<^verbatim>\<open>{state: 'success'}\<close>, or whatever a provider
  returned. \<open>Validated cleanRecord authType\<close> is
  \<^verbatim>\<open>{state: 'success', pass: true, cleanRecord, authType}\<close>, with \<open>authType = None\<close> for
  \<^verbatim>\<open>null\<close>. \<open>Stored record\<close> is \<^verbatim>\<open>{state: 'success', identity: record}\<close>.
\<close>

datatype result =
    Plain jsval
  | Validated identity "provider option"
  | Stored identity

definition failure :: "string \<Rightarrow> string \<Rightarrow> result" where
  "failure st reason = Plain (JObj [(''state'', JStr st), (''reason'', JStr reason)])"

text \<open>\<^verbatim>\<open>r.pass\<close> and \<^verbatim>\<open>r.state\<close> on a result.\<close>

fun pass :: "result \<Rightarrow> bool" where
  "pass (Plain v) = truthy (field v ''pass'')"
| "pass (Validated cleanRecord authType) = True"
| "pass (Stored record) = False"

fun state_of :: "result \<Rightarrow> jsval" where
  "state_of (Plain v) = field v ''state''"
| "state_of (Validated cleanRecord authType) = JStr ''success''"
| "state_of (Stored record) = JStr ''success''"

text \<open>
  The second loop of the functions block:
  \<^verbatim>\<open>for (let f in details.functions) if (!options.validFunctions.includes(f)) invalidFunctions.push(f)\<close>,
  run over the keys that \<^verbatim>\<open>for ... in\<close> enumerates.
\<close>

fun invalid_functions :: "jsval \<Rightarrow> string list \<Rightarrow> string list outcome" where
  "invalid_functions validFunctions [] = Return []"
| "invalid_functions validFunctions (f # fs) =
     (case js_includes validFunctions f of
        Inl e \<Rightarrow> Throw e
      | Inr b \<Rightarrow>
          (case invalid_functions validFunctions fs of
             Inl e \<Rightarrow> Throw e
           | Inr rest \<Rightarrow> Return (if b then rest else f # rest)))"

text \<open>
  Lines 176 to 217 of \<^verbatim>\<open>validateIdentitySpec\<close>: the functions list. Both loops are
  \<^verbatim>\<open>for (let f in details.functions)\<close>, so \<open>f\<close> ranges over the indices of the array, not
  over its elements; \<^verbatim>\<open>typeof f !== 'string'\<close> is false for every index.
\<close>

definition validate_functions_list ::
  "jsval \<Rightarrow> jsval \<Rightarrow> identity \<Rightarrow> provider option \<Rightarrow> result outcome" where
  "validate_functions_list details options cleanRecord authType =
     (let fns = field details ''functions'' in
      if truthy fns then
        (case fns of
           JArr fs \<Rightarrow>
             (let incorrectFormat = filter (\<lambda>f. \<not> regex_matches f) (for_in_keys fs) in
              if length incorrectFormat > 0
              then Return (failure ''requestError''
                     (''Incorrectly formatted function names (should match regex ''
                       @ regex_source @ ''): '' @ join '', '' incorrectFormat))
              else if truthy (field options ''validFunctions'') then
                (case invalid_functions (field options ''validFunctions'') (for_in_keys fs) of
                   Inl e \<Rightarrow> Throw e
                 | Inr invalidFunctions \<Rightarrow>
                     if length invalidFunctions > 0
                     then Return (failure ''requestError''
                            (''Invalid functions named: '' @ join '', '' invalidFunctions))
                     else Return (Validated (cleanRecord\<lparr>functions := fns\<rparr>) authType))
              else Return (Validated (cleanRecord\<lparr>functions := fns\<rparr>) authType))
         | _ \<Rightarrow> Return (failure ''requestError'' ''Functions not specified as an array.''))
      else Return (Validated (cleanRecord\<lparr>functions := JArr []\<rparr>) authType))"

text \<open>
  Lines 140 to 174: the authentication details. \<^verbatim>\<open>authTypes[auth.type]\<close> converts the type
  to a property key first, which can throw. The provider's \<open>validate\<close> result \<open>r\<close> is
  returned as it is unless \<^verbatim>\<open>r.state === 'success'\<close>.
\<close>

definition validate_authentication ::
  "provider \<Rightarrow> jsval \<Rightarrow> jsval \<Rightarrow> identity \<Rightarrow> result outcome" where
  "validate_authentication password details options cleanRecord =
     (let auth_details = field details ''auth'' in
      if truthy (field options ''newIdentity'') \<and> \<not> truthy auth_details
      then Return (failure ''requestError''
             ''No athentication details specified for new identity.'')
      else if truthy auth_details then
        (let ty = field auth_details ''type'' in
         if \<not> truthy ty
         then Return (failure ''requestError'' ''No authentication type specified.'')
         else
           (case js_toString ty of
              Inl e \<Rightarrow> Throw e
            | Inr key \<Rightarrow>
                (case authTypes password key of
                   None \<Rightarrow>
                     Return (failure ''serverConfigurationError''
                       (''Invalid authentication type specified for user: '' @ key))
                 | Some authType \<Rightarrow>
                     (case validate authType of
                        None \<Rightarrow>
                          Return (failure ''serverConfigurationError''
                            (''No validation function specified for authentication type: '' @ key))
                      | Some validate_fn \<Rightarrow>
                          (case commit authType of
                             None \<Rightarrow>
                               Return (failure ''serverConfigurationError''
                                 (''No commit function specified for authentication type: '' @ key))
                           | Some commit_fn \<Rightarrow>
                               (case validate_fn auth_details of
                                  Inl e \<Rightarrow> Throw e
                                | Inr r \<Rightarrow>
                                    (case js_prop r ''state'' of
                                       Inl e \<Rightarrow> Throw e
                                     | Inr st \<Rightarrow>
                                         if st \<noteq> JStr ''success'' then Return (Plain r)
                                         else validate_functions_list details options
                                                (cleanRecord\<lparr>auth := field r ''cleanRecord''\<rparr>)
                                                (Some authType))))))))
      else validate_functions_list details options cleanRecord None)"

text \<open>
  \<^verbatim>\<open>validateIdentitySpec(details, options)\<close>, lines 104 to 218, on the store \<open>identities\<close>;
  the store is returned with the result. A truthy \<^verbatim>\<open>details.name\<close> that is not a string
  has no callable \<open>match\<close>: the call throws a TypeError. For a string,
  \<^verbatim>\<open>o.name == details.name\<close> compares two strings.
\<close>

definition validateIdentitySpec ::
  "provider \<Rightarrow> jsval \<Rightarrow> jsval \<Rightarrow> store \<Rightarrow> result outcome \<times> store" where
  "validateIdentitySpec password details options0 identities =
     (let options = (if \<not> truthy options0 then JObj [] else options0) in
      case js_prop details ''name'' of
        Inl e \<Rightarrow> (Throw e, identities)
      | Inr nm \<Rightarrow>
          if \<not> truthy nm
          then (Return (failure ''requestError'' ''No user specified.''), identities)
          else
            (case nm of
               JStr n \<Rightarrow>
                 if \<not> regex_matches n
                 then (Return (failure ''requestError''
                         (''Invalid name format (should match regex '' @ regex_source @ '').'')),
                       identities)
                 else
                   (let i = findIndex (\<lambda>x. name x = n) identities in
                    if truthy (field options ''newIdentity'') \<and> i \<noteq> - 1
                    then (Return (failure ''requestError'' ''Identity name already in use.''),
                          identities)
                    else if \<not> truthy (field options ''newIdentity'') \<and> i = - 1
                    then (Return (failure ''requestError'' ''No such user.''), identities)
                    else (validate_authentication password details options
                            \<lparr> id' = None, name = n, auth = JUndefined, functions = JUndefined \<rparr>,
                          identities))
             | _ \<Rightarrow> (Throw TypeError, identities)))"

section \<open>Operations on the identity store\<close>

definition commit_failed :: result where
  "commit_failed =
     failure ''serverAuthCommitFailed''
       ''An exception occured while commiting authentication details.''"

text \<open>
  \<^verbatim>\<open>addIdentity(details)\<close>, lines 234 to 260; \<open>uuid\<close> is what \<^verbatim>\<open>uuidv4()\<close> returns. Everything
  inside the \<^verbatim>\<open>try\<close> block that throws (a missing \<open>authType\<close> or \<open>commit\<close>, the provider's
  \<open>commit\<close> itself, reading \<open>state\<close> from an \<open>undefined\<close> result) ends in the \<^verbatim>\<open>catch\<close>.

  The \<open>Plain v\<close> branch is a provider whose \<open>validate\<close> result was returned by the pipeline
  and has a truthy \<open>pass\<close>: then \<^verbatim>\<open>record.id = uuidv4()\<close> throws in strict mode unless
  \<^verbatim>\<open>r.cleanRecord\<close> is an object or an array, and \<^verbatim>\<open>r.authType.commit\<close>, being plain data, is
  not callable, which the \<^verbatim>\<open>catch\<close> reports.
\<close>

definition addIdentity :: "provider \<Rightarrow> string \<Rightarrow> jsval \<Rightarrow> store \<Rightarrow> result outcome \<times> store" where
  "addIdentity password uuid details identities =
     (case validateIdentitySpec password details (JObj [(''newIdentity'', JBool True)]) identities of
        (Inl e, ids) \<Rightarrow> (Throw e, ids)
      | (Inr r, ids) \<Rightarrow>
          if pass r then
            (case r of
               Validated cleanRecord authType \<Rightarrow>
                 (let record = cleanRecord\<lparr>id' := Some uuid\<rparr> in
                  case authType of
                    None \<Rightarrow> (Return commit_failed, ids)
                  | Some p \<Rightarrow>
                      (case commit p of
                         None \<Rightarrow> (Return commit_failed, ids)
                       | Some commit_fn \<Rightarrow>
                           (case commit_fn (auth record) of
                              Inl e \<Rightarrow> (Return commit_failed, ids)
                            | Inr r2 \<Rightarrow>
                                (case js_prop r2 ''state'' of
                                   Inl e \<Rightarrow> (Return commit_failed, ids)
                                 | Inr st \<Rightarrow>
                                     if st \<noteq> JStr ''success'' then (Return (Plain r2), ids)
                                     else
                                       (let record' = record\<lparr>auth := field r2 ''commitRecord''\<rparr>
                                        in (Return (Stored record'), ids @ [record']))))))
             | Plain v \<Rightarrow>
                 (case field v ''cleanRecord'' of
                    JObj kvs \<Rightarrow> (Return commit_failed, ids)
                  | JArr xs \<Rightarrow> (Return commit_failed, ids)
                  | _ \<Rightarrow> (Throw TypeError, ids))
             | Stored record \<Rightarrow> (Return r, ids))
          else (Return r, ids))"

text \<open>
  \<^verbatim>\<open>setIdentity(details)\<close>, lines 262 to 295. After a passing validation the function
  evaluates \<^verbatim>\<open>identities.findIndex((o) => o.name == name)\<close>. No variable \<open>name\<close> is declared
  in the function, in the module or as a global of the runtime, so the first call of the
  callback throws a ReferenceError. On an empty array the callback is never called,
  \<open>findIndex\<close> returns \<open>-1\<close>, \<^verbatim>\<open>identities[-1]\<close> is \<open>undefined\<close> and
  \<^verbatim>\<open>Object.keys(undefined)\<close> throws a TypeError. The rest of the function (the loop over
  \<^verbatim>\<open>updateFields\<close>, the uncaught call of \<open>commit\<close>, the \<open>success\<close> result) is never reached.
\<close>

definition setIdentity :: "provider \<Rightarrow> jsval \<Rightarrow> store \<Rightarrow> result outcome \<times> store" where
  "setIdentity password details identities =
     (case validateIdentitySpec password details JUndefined identities of
        (Inl e, ids) \<Rightarrow> (Throw e, ids)
      | (Inr r, ids) \<Rightarrow>
          if \<not> pass r then (Return r, ids)
          else if ids = [] then (Throw TypeError, ids)
          else (Throw ReferenceError, ids))"

text \<open>
  \<^verbatim>\<open>removeIdentity(name)\<close>, lines 297 to 309. After a passing validation \<open>name\<close> is a
  string, and \<^verbatim>\<open>o.name == name\<close> compares two strings.
\<close>

definition removeIdentity :: "provider \<Rightarrow> jsval \<Rightarrow> store \<Rightarrow> result outcome \<times> store" where
  "removeIdentity password nm identities =
     (case validateIdentitySpec password (JObj [(''name'', nm)]) JUndefined identities of
        (Inl e, ids) \<Rightarrow> (Throw e, ids)
      | (Inr r, ids) \<Rightarrow>
          if \<not> pass r then (Return r, ids)
          else
            (let i = findIndex (\<lambda>x. JStr (name x) = nm) ids
             in (Return (Plain (JObj [(''state'', JStr ''success'')])), splice1 i ids)))"

text \<open>A sequence of calls of \<^verbatim>\<open>addIdentity\<close> and \<^verbatim>\<open>removeIdentity\<close> on the store.\<close>

datatype store_op = AddIdentity jsval string | RemoveIdentity jsval

fun apply_store_op :: "provider \<Rightarrow> store \<Rightarrow> store_op \<Rightarrow> store" where
  "apply_store_op password identities (AddIdentity details uuid) =
     snd (addIdentity password uuid details identities)"
| "apply_store_op password identities (RemoveIdentity nm) =
     snd (removeIdentity password nm identities)"

definition run_store_ops :: "provider \<Rightarrow> store_op list \<Rightarrow> store \<Rightarrow> store" where
  "run_store_ops password ops identities = foldl (apply_store_op password) identities ops"

section \<open>The token service\<close>

text \<open>
  The \<^verbatim>\<open>jsonwebtoken\<close> package is a dependency, not part of the repository: its three
  functions are parameters. \<open>jwt_verify lib token secret clock\<close> holds when
  \<^verbatim>\<open>jwt.verify(token, secret)\<close> returns without throwing at the clock reading \<open>clock\<close>
  (in seconds); \<open>jwt_decode\<close> returns \<open>JNull\<close> for a token it cannot decode.
\<close>

record jwt_lib =
  jwt_sign :: "jsval \<Rightarrow> string \<Rightarrow> string"
  jwt_verify :: "string \<Rightarrow> string \<Rightarrow> int \<Rightarrow> bool"
  jwt_decode :: "string \<Rightarrow> jsval"

text \<open>
  \<^verbatim>\<open>Math.round(t.toSeconds())\<close> for an instant \<open>t\<close> given in milliseconds since the epoch:
  \<^verbatim>\<open>Math.round\<close> rounds a half upwards.
\<close>

definition round_seconds :: "int \<Rightarrow> int" where
  "round_seconds ms = (ms + 500) div 1000"

text \<open>
  The payload that \<^verbatim>\<open>newToken(identity, options)\<close> builds, lines 44 to 59. \<open>now\<close> is
  \<^verbatim>\<open>DateTime.now()\<close> in milliseconds; \<open>options\<close> is \<open>Some d\<close> when \<^verbatim>\<open>options.duration\<close> is
  truthy and shifts an instant by \<open>d\<close> milliseconds, \<open>None\<close> otherwise.
\<close>

definition token_payload :: "int \<Rightarrow> identity \<Rightarrow> int option \<Rightarrow> jsval" where
  "token_payload now identity options =
     (let payload = [(''name'', JStr (name identity)),
                     (''iat'', JNum (round_seconds now)),
                     (''exp'', JNum (round_seconds (now + 30 * 60 * 1000)))];
          payload' = (case options of
                        Some d \<Rightarrow> set_field payload ''exp'' (JNum (round_seconds (now + d)))
                      | None \<Rightarrow> payload)
      in JObj (if truthy (functions identity)
               then set_field payload' ''functions'' (functions identity)
               else payload'))"

definition newToken :: "jwt_lib \<Rightarrow> string \<Rightarrow> int \<Rightarrow> identity \<Rightarrow> int option \<Rightarrow> string" where
  "newToken lib secret now identity options =
     jwt_sign lib (token_payload now identity options) secret"

text \<open>\<^verbatim>\<open>verifyToken(token)\<close>, lines 71 to 78: any throw of \<^verbatim>\<open>jwt.verify\<close> gives \<^verbatim>\<open>null\<close>.\<close>

definition verifyToken :: "jwt_lib \<Rightarrow> string \<Rightarrow> int \<Rightarrow> string \<Rightarrow> jsval" where
  "verifyToken lib secret clock token =
     (if jwt_verify lib token secret clock then jwt_decode lib token else JNull)"

section \<open>Authentication and the endpoint\<close>

text \<open>\<^verbatim>\<open>r.token = t\<close> on a provider result; a result with \<open>state\<close> is an object.\<close>

fun with_token :: "jsval \<Rightarrow> string \<Rightarrow> jsval" where
  "with_token (JObj kvs) t = JObj (set_field kvs ''token'' (JStr t))"
| "with_token v t = v"

text \<open>
  \<^verbatim>\<open>authenticate(details)\<close>, lines 311 to 337. \<^verbatim>\<open>identities[i]\<close> outside the array is
  \<open>undefined\<close>, and reading \<open>auth\<close> from it throws; so does calling \<open>authenticate\<close> on a
  missing provider or a provider without that function.
\<close>

definition authenticate ::
  "jwt_lib \<Rightarrow> string \<Rightarrow> int \<Rightarrow> provider \<Rightarrow> jsval \<Rightarrow> store \<Rightarrow> result outcome \<times> store" where
  "authenticate lib secret now password details identities =
     (case validateIdentitySpec password details JUndefined identities of
        (Inl e, ids) \<Rightarrow> (Throw e, ids)
      | (Inr r, ids) \<Rightarrow>
          if \<not> pass r then (Return r, ids)
          else
            (let i = findIndex (\<lambda>x. field details ''name'' = JStr (name x)) ids in
             if i < 0 \<or> int (length ids) \<le> i then (Throw TypeError, ids)
             else
               (let identity = ids ! nat i in
                case js_prop (auth identity) ''type'' of
                  Inl e \<Rightarrow> (Throw e, ids)
                | Inr ty \<Rightarrow>
                    (case js_toString ty of
                       Inl e \<Rightarrow> (Throw e, ids)
                     | Inr key \<Rightarrow>
                         (case authTypes password key of
                            None \<Rightarrow> (Throw TypeError, ids)
                          | Some authType \<Rightarrow>
                              (case provider_authenticate authType of
                                 None \<Rightarrow> (Throw TypeError, ids)
                               | Some authenticate_fn \<Rightarrow>
                                   (case authenticate_fn (auth identity) details of
                                      Inl e \<Rightarrow> (Throw e, ids)
                                    | Inr r2 \<Rightarrow>
                                        (case js_prop r2 ''state'' of
                                           Inl e \<Rightarrow> (Throw e, ids)
                                         | Inr st \<Rightarrow>
                                             if st \<noteq> JStr ''success'' then (Return (Plain r2), ids)
                                             else (Return (Plain (with_token r2
                                                     (newToken lib secret now identity None))), ids)))))))))"

text \<open>
  The response object of the transport: \<^verbatim>\<open>res.status(n)\<close> sets \<open>statusCode\<close>,
  \<^verbatim>\<open>res.send(JSON.stringify(r))\<close> sets \<open>body\<close> (the result itself stands for its JSON
  text). A handler that never calls \<^verbatim>\<open>res.status\<close> leaves \<open>statusCode\<close> as it found it.
\<close>

record response =
  statusCode :: nat
  body :: "result option"

text \<open>\<^verbatim>\<open>r.token\<close> on what \<^verbatim>\<open>authenticate\<close> returned.\<close>

fun token_of :: "result \<Rightarrow> jsval outcome" where
  "token_of (Plain v) = js_prop v ''token''"
| "token_of r = Return JUndefined"

text \<open>
  The handler of \<^verbatim>\<open>app.post(path, ...)\<close>, lines 361 to 387, on the request body. The
  \<^verbatim>\<open>switch\<close> has the cases \<open>requestError\<close>, \<open>serverError\<close> and \<open>failed\<close>, and no default.
\<close>

definition post_handler ::
  "jwt_lib \<Rightarrow> string \<Rightarrow> int \<Rightarrow> provider \<Rightarrow> jsval \<Rightarrow> store \<Rightarrow> response
     \<Rightarrow> response outcome \<times> store" where
  "post_handler lib secret now password req_body identities res =
     (case authenticate lib secret now password req_body identities of
        (Inl e, ids) \<Rightarrow> (Throw e, ids)
      | (Inr r, ids) \<Rightarrow>
          (case token_of r of
             Inl e \<Rightarrow> (Throw e, ids)
           | Inr t \<Rightarrow>
               if truthy t then (Return (res\<lparr>statusCode := 200, body := Some r\<rparr>), ids)
               else
                 (let st = state_of r;
                      res' = (if st = JStr ''requestError'' then res\<lparr>statusCode := 400\<rparr>
                              else if st = JStr ''serverError'' then res\<lparr>statusCode := 500\<rparr>
                              else if st = JStr ''failed'' then res\<lparr>statusCode := 403\<rparr>
                              else res)
                  in (Return (res'\<lparr>body := Some r\<rparr>), ids))))"

section \<open>The verification middleware\<close>

text \<open>
  \<^verbatim>\<open>auth.match(/^(?<type>bearer) (?<token>.+)/)\<close>: the header must start with the seven
  characters \<^verbatim>\<open>bearer \<close> as written (the expression has no \<open>i\<close> flag), and the token is
  the longest run of characters after them that holds no line terminator; it must not
  be empty. A header value is a string of one-byte characters, among which the line
  terminators are the line feed and the carriage return.
\<close>

definition line_terminator :: "char \<Rightarrow> bool" where
  "line_terminator c = (of_char c = (10 :: nat) \<or> of_char c = (13 :: nat))"

definition bearer_match :: "string \<Rightarrow> string option" where
  "bearer_match s =
     (if take 7 s = ''bearer '' then
        (let token = takeWhile (\<lambda>c. \<not> line_terminator c) (drop 7 s)
         in if token = [] then None else Some token)
      else None)"

text \<open>
  The request as the middleware sees it: the \<open>authorization\<close> header (\<open>None\<close> when the
  request has none) and the property \<open>authenticated\<close>, \<open>JUndefined\<close> until it is set.
\<close>

record request =
  authorization :: "string option"
  authenticated :: jsval

text \<open>\<^verbatim>\<open>mw_verify(req, res, next)\<close>, lines 456 to 473; \<^verbatim>\<open>next()\<close> is called in every case.\<close>

definition mw_verify :: "jwt_lib \<Rightarrow> string \<Rightarrow> int \<Rightarrow> request \<Rightarrow> request" where
  "mw_verify lib secret clock req =
     (case authorization req of
        None \<Rightarrow> req
      | Some hdr \<Rightarrow>
          if hdr = [] then req
          else
            (case bearer_match hdr of
               None \<Rightarrow> req
             | Some token \<Rightarrow>
                 (let p = verifyToken lib secret clock token
                  in if truthy p then req\<lparr>authenticated := p\<rparr> else req)))"

text \<open>
  A \<open>jwt_lib\<close> that knows finitely many tokens, each listed with its payload and the
  secret it was signed with: the library used to run the token service on concrete
  inputs. It signs a listed payload with its listed token, accepts a listed token under
  its secret until the \<open>exp\<close> of its payload, and decodes a listed token to its payload.
\<close>

definition table_sign :: "(string \<times> jsval \<times> string) list \<Rightarrow> jsval \<Rightarrow> string \<Rightarrow> string" where
  "table_sign table payload secret =
     (case find (\<lambda>(t, p, s). p = payload \<and> s = secret) table of
        Some (t, p, s) \<Rightarrow> t
      | None \<Rightarrow> [])"

definition table_verify :: "(string \<times> jsval \<times> string) list \<Rightarrow> string \<Rightarrow> string \<Rightarrow> int \<Rightarrow> bool" where
  "table_verify table token secret clock =
     (case find (\<lambda>(t, p, s). t = token) table of
        Some (t, p, s) \<Rightarrow>
          s = secret \<and> (case field p ''exp'' of JNum e \<Rightarrow> clock < e | _ \<Rightarrow> True)
      | None \<Rightarrow> False)"

definition table_decode :: "(string \<times> jsval \<times> string) list \<Rightarrow> string \<Rightarrow> jsval" where
  "table_decode table token =
     (case find (\<lambda>(t, p, s). t = token) table of
        Some (t, p, s) \<Rightarrow> p
      | None \<Rightarrow> JNull)"

definition table_jwt :: "(string \<times> jsval \<times> string) list \<Rightarrow> jwt_lib" where
  "table_jwt table =
     \<lparr> jwt_sign = table_sign table, jwt_verify = table_verify table,
       jwt_decode = table_decode table \<rparr>"

text \<open>
  The library is faithful at a payload when the token it signs for that payload under
  \<open>secret\<close> decodes to the same payload, and is accepted under the same secret at the clock
  reading \<open>clock\<close> exactly when \<open>clock\<close> is before the \<open>exp\<close> claim of the payload. The real
  package writes the payload as JSON text, so it is faithful at payloads that JSON
  represents (no \<open>undefined\<close> inside).
\<close>

definition jwt_faithful :: "jwt_lib \<Rightarrow> string \<Rightarrow> int \<Rightarrow> jsval \<Rightarrow> bool" where
  "jwt_faithful lib secret clock payload =
     (jwt_decode lib (jwt_sign lib payload secret) = payload \<and>
      jwt_verify lib (jwt_sign lib payload secret) secret clock =
        (case field payload ''exp'' of JNum e \<Rightarrow> clock < e | _ \<Rightarrow> True))"

section \<open>Concrete providers\<close>

text \<open>
  Two providers to run the operations on concrete inputs. Both accept every credential
  object as it is; the first stores it as it is, the commit of the second throws.
\<close>

definition accept_all :: "jsval \<Rightarrow> jsval outcome" where
  "accept_all a = Return (JObj [(''state'', JStr ''success''), (''cleanRecord'', a)])"

definition keeping_provider :: provider where
  "keeping_provider =
     \<lparr> validate = Some accept_all,
       commit = Some (\<lambda>a. Return (JObj [(''state'', JStr ''success''), (''commitRecord'', a)])),
       provider_authenticate = Some (\<lambda>stored details. Return (JObj [(''state'', JStr ''success'')])) \<rparr>"

definition always_throws :: "jsval \<Rightarrow> jsval outcome" where
  "always_throws a = Throw (Thrown (JStr ''commit failed''))"

definition throwing_provider :: provider where
  "throwing_provider =
     \<lparr> validate = Some accept_all, commit = Some always_throws, provider_authenticate = None \<rparr>"

definition bob_details :: jsval where
  "bob_details =
     JObj [(''name'', JStr ''bob''),
           (''auth'', JObj [(''type'', JStr ''password''), (''password'', JStr ''x'')]),
           (''functions'', JArr [JStr ''api''])]"

definition bob_clean :: identity where
  "bob_clean =
     \<lparr> id' = None, name = ''bob'',
       auth = JObj [(''type'', JStr ''password''), (''password'', JStr ''x'')],
       functions = JArr [JStr ''api''] \<rparr>"

definition bad_name_details :: jsval where
  "bad_name_details =
     JObj [(''name'', JStr ''bad name!''),
           (''auth'', JObj [(''type'', JStr ''password''), (''password'', JStr ''x'')])]"

text \<open>
  A clock, a secret and a token table to run the token service: the built-in \<open>admin\<close>
  record and a record without \<open>functions\<close>, each with the token for the payload that
  \<^verbatim>\<open>newToken\<close> builds at \<open>demo_now\<close>.
\<close>

definition admin_identity :: identity where
  "admin_identity = hd initial_identities"

definition guest_identity :: identity where
  "guest_identity = \<lparr> id' = None, name = ''guest'', auth = JUndefined, functions = JUndefined \<rparr>"

definition demo_now :: int where
  "demo_now = 1700000000000"

definition demo_secret :: string where
  "demo_secret = ''0b0e7a3c-5c1f-4a58-9d0e-6f2b8a1c4d77''"

definition demo_jwt :: jwt_lib where
  "demo_jwt =
     table_jwt [(''token-admin'', token_payload demo_now admin_identity None, demo_secret),
                (''token-guest'', token_payload demo_now guest_identity None, demo_secret)]"

section \<open>Auxiliary facts\<close>

lemma validateIdentitySpec_store:
  "snd (validateIdentitySpec password details options identities) = identities"
  by (simp add: validateIdentitySpec_def Let_def split: sum.splits jsval.splits)

lemma validate_functions_list_name:
  "validate_functions_list details options cleanRecord authType = Return (Validated cr at)
     \<Longrightarrow> name cr = name cleanRecord \<and> at = authType"
  by (auto simp: validate_functions_list_def Let_def failure_def
      split: if_splits jsval.splits sum.splits)

lemma validate_authentication_name:
  "validate_authentication password details options cleanRecord = Return (Validated cr at)
     \<Longrightarrow> name cr = name cleanRecord"
  by (auto simp: validate_authentication_def Let_def failure_def
      split: if_splits option.splits sum.splits dest!: validate_functions_list_name)

lemma findIndex_lower: "- 1 \<le> findIndex p xs"
  by (induction xs) (auto simp: Let_def)

lemma findIndex_absent: "findIndex p xs = - 1 \<longleftrightarrow> \<not> list_ex p xs"
proof (induction xs)
  case Nil
  show ?case by simp
next
  case (Cons x xs)
  have "- 1 \<le> findIndex p xs" by (rule findIndex_lower)
  with Cons show ?case by (auto simp: Let_def)
qed

text \<open>In creation mode a clean record only comes back under a name that is not stored.\<close>

lemma validateIdentitySpec_fresh:
  "validateIdentitySpec password details (JObj [(''newIdentity'', JBool True)]) identities
     = (Return (Validated cr at), ids)
     \<Longrightarrow> name cr \<notin> name ` set identities"
  by (auto simp: validateIdentitySpec_def Let_def failure_def findIndex_absent list_ex_iff
      split: if_splits sum.splits jsval.splits dest!: validate_authentication_name)

text \<open>\<^verbatim>\<open>addIdentity\<close> leaves the store as it is or appends one record with a new name.\<close>

lemma addIdentity_store:
  "snd (addIdentity password uuid details identities) = identities \<or>
   (\<exists>r. snd (addIdentity password uuid details identities) = identities @ [r] \<and>
        name r \<notin> name ` set identities)"
proof (cases "validateIdentitySpec password details (JObj [(''newIdentity'', JBool True)]) identities")
  case (Pair out ids)
  have ids: "ids = identities"
    using validateIdentitySpec_store
      [of password details "JObj [(''newIdentity'', JBool True)]" identities] Pair
    by simp
  show ?thesis
  proof (cases out)
    case (Inl e)
    with Pair ids show ?thesis by (simp add: addIdentity_def)
  next
    case (Inr r)
    show ?thesis
    proof (cases r)
      case (Plain v)
      with Pair Inr ids show ?thesis
        by (simp add: addIdentity_def split: jsval.splits)
    next
      case (Validated cr at)
      with Pair Inr have "name cr \<notin> name ` set identities"
        using validateIdentitySpec_fresh by blast
      with Pair Inr ids Validated show ?thesis
        by (auto simp: addIdentity_def Let_def split: option.splits sum.splits)
    next
      case (Stored x)
      with Pair Inr ids show ?thesis by (simp add: addIdentity_def)
    qed
  qed
qed

lemma distinct_remove_nth:
  "distinct ys \<Longrightarrow> distinct (take k ys @ drop (Suc k) ys)"
proof (cases "k < length ys")
  case True
  assume "distinct ys"
  then have "distinct (take k ys @ ys ! k # drop (Suc k) ys)"
    using True by (simp add: id_take_nth_drop [symmetric])
  then show ?thesis by simp
next
  case False
  assume "distinct ys"
  with False show ?thesis by simp
qed

lemma splice1_distinct: "distinct (map f xs) \<Longrightarrow> distinct (map f (splice1 i xs))"
  using distinct_remove_nth [of "map f xs"]
  by (simp add: splice1_def Let_def take_map drop_map)

lemma removeIdentity_distinct:
  "distinct (map name identities)
     \<Longrightarrow> distinct (map name (snd (removeIdentity password nm identities)))"
proof (cases "validateIdentitySpec password (JObj [(''name'', nm)]) JUndefined identities")
  case (Pair out ids)
  assume d: "distinct (map name identities)"
  have ids: "ids = identities"
    using validateIdentitySpec_store [of password "JObj [(''name'', nm)]" JUndefined identities] Pair
    by simp
  with Pair d show ?thesis
    by (cases out) (simp_all add: removeIdentity_def Let_def splice1_distinct)
qed

lemma addIdentity_distinct:
  "distinct (map name identities)
     \<Longrightarrow> distinct (map name (snd (addIdentity password uuid details identities)))"
  using addIdentity_store [of password uuid details identities] by auto

lemma apply_store_op_distinct:
  "distinct (map name identities) \<Longrightarrow> distinct (map name (apply_store_op password identities op))"
  by (cases op) (simp_all add: addIdentity_distinct removeIdentity_distinct)

lemma run_store_ops_distinct:
  "distinct (map name identities) \<Longrightarrow> distinct (map name (run_store_ops password ops identities))"
  unfolding run_store_ops_def
  by (induction ops arbitrary: identities) (simp_all add: apply_store_op_distinct)

text \<open>A key is distinct in a list exactly when every value of the key occurs at most once.\<close>

lemma distinct_map_count:
  "distinct (map f xs) \<longleftrightarrow> (\<forall>y. length (filter (\<lambda>x. f x = y) xs) \<le> 1)"
proof (induction xs)
  case Nil
  show ?case by simp
next
  case (Cons x xs)
  show ?case
  proof
    assume d: "distinct (map f (x # xs))"
    then have dxs: "distinct (map f xs)" by simp
    from d have nin: "f x \<notin> f ` set xs" by simp
    have fresh: "\<forall>z\<in>set xs. f z \<noteq> f x"
    proof
      fix z
      assume "z \<in> set xs"
      then have "f z \<in> f ` set xs" by (rule imageI)
      with nin show "f z \<noteq> f x" by metis
    qed
    then have "filter (\<lambda>z. f z = f x) xs = []"
      by (simp add: filter_empty_conv)
    with dxs Cons show "\<forall>y. length (filter (\<lambda>z. f z = y) (x # xs)) \<le> 1" by auto
  next
    assume c: "\<forall>y. length (filter (\<lambda>z. f z = y) (x # xs)) \<le> 1"
    have "length (filter (\<lambda>z. f z = f x) xs) = 0"
      using c [rule_format, of "f x"] by simp
    then have fresh: "f x \<notin> f ` set xs"
      by (auto simp: filter_empty_conv)
    have "\<forall>y. length (filter (\<lambda>z. f z = y) xs) \<le> 1"
    proof
      fix y
      show "length (filter (\<lambda>z. f z = y) xs) \<le> 1"
        using c [rule_format, of y] by (simp split: if_splits)
    qed
    with Cons fresh show "distinct (map f (x # xs))" by simp
  qed
qed

text \<open>Once the validation has passed, \<^verbatim>\<open>setIdentity\<close> throws, whatever the store and the details.\<close>

lemma setIdentity_throws_after_validation:
  "fst (validateIdentitySpec password details JUndefined identities) = Return r \<Longrightarrow> pass r
     \<Longrightarrow> \<exists>e. setIdentity password details identities = (Throw e, identities)"
proof -
  assume r: "fst (validateIdentitySpec password details JUndefined identities) = Return r"
    and p: "pass r"
  have "snd (validateIdentitySpec password details JUndefined identities) = identities"
    by (rule validateIdentitySpec_store)
  with r have "validateIdentitySpec password details JUndefined identities = (Return r, identities)"
    by (metis prod.collapse)
  with p show ?thesis by (simp add: setIdentity_def)
qed

lemmas validation_defs =
  validateIdentitySpec_def validate_authentication_def validate_functions_list_def
  authTypes_def object_prototype_keys_def regex_matches_def regex_class_def for_in_keys_def
  failure_def

section \<open>Atomic add\<close>

text \<open>
  Claim C1. When the validation of \<^verbatim>\<open>addIdentity(details)\<close> has passed and the provider's
  \<open>commit\<close> throws on the clean credentials, \<^verbatim>\<open>addIdentity\<close> returns the result with state
  \<open>serverAuthCommitFailed\<close> and the store is the store from before the call: no record
  is appended.
\<close>

theorem addIdentity_commit_throws_store_unchanged:
  assumes "fst (validateIdentitySpec password details (JObj [(''newIdentity'', JBool True)])
                  identities) = Return (Validated cleanRecord (Some authType))"
    and "commit authType = Some commit_fn"
    and "commit_fn (auth cleanRecord) = Throw e"
  shows "addIdentity password uuid details identities = (Return commit_failed, identities) \<and>
         state_of commit_failed = JStr ''serverAuthCommitFailed''"
proof -
  have "snd (validateIdentitySpec password details (JObj [(''newIdentity'', JBool True)])
               identities) = identities"
    by (rule validateIdentitySpec_store)
  with assms(1)
  have "validateIdentitySpec password details (JObj [(''newIdentity'', JBool True)]) identities
          = (Return (Validated cleanRecord (Some authType)), identities)"
    by (metis prod.collapse)
  with assms(2,3) show ?thesis
    by (simp add: addIdentity_def commit_failed_def failure_def)
qed

theorem addIdentity_commit_throws_witness:
  "fst (validateIdentitySpec throwing_provider bob_details (JObj [(''newIdentity'', JBool True)])
          initial_identities) = Return (Validated bob_clean (Some throwing_provider)) \<and>
   commit throwing_provider = Some always_throws \<and>
   always_throws (auth bob_clean) = Throw (Thrown (JStr ''commit failed'')) \<and>
   addIdentity throwing_provider ''u1'' bob_details initial_identities
     = (Return commit_failed, initial_identities) \<and>
   state_of commit_failed = JStr ''serverAuthCommitFailed''"
proof -
  have v: "fst (validateIdentitySpec throwing_provider bob_details
                  (JObj [(''newIdentity'', JBool True)]) initial_identities)
             = Return (Validated bob_clean (Some throwing_provider))"
    by (simp add: validation_defs bob_details_def bob_clean_def initial_identities_def
          throwing_provider_def accept_all_def)
  have c: "commit throwing_provider = Some always_throws"
    by (simp add: throwing_provider_def)
  have t: "always_throws (auth bob_clean) = Throw (Thrown (JStr ''commit failed''))"
    by (simp add: always_throws_def)
  show ?thesis
    using addIdentity_commit_throws_store_unchanged [OF v c t, of "''u1''"] v c t by simp
qed

section \<open>Round trip of a token\<close>

text \<open>
  Claim C2. For an identity with name \<open>n\<close> and a functions list \<open>F\<close>, and a library that is
  faithful at the payload \<^verbatim>\<open>newToken\<close> builds, verifying the new token before its expiry
  instant (thirty minutes after issue) returns claims that are not \<open>null\<close>, whose \<open>name\<close>
  is \<open>n\<close> and whose \<open>functions\<close> is \<open>F\<close>.
\<close>

theorem verifyToken_newToken_roundtrip:
  assumes "functions identity = JArr F"
    and "jwt_faithful lib secret clock (token_payload now identity None)"
    and "clock < round_seconds (now + 30 * 60 * 1000)"
  shows "verifyToken lib secret clock (newToken lib secret now identity None) \<noteq> JNull \<and>
         field (verifyToken lib secret clock (newToken lib secret now identity None)) ''name''
           = JStr (name identity) \<and>
         field (verifyToken lib secret clock (newToken lib secret now identity None)) ''functions''
           = JArr F"
  using assms
  by (simp add: verifyToken_def newToken_def jwt_faithful_def token_payload_def)

theorem verifyToken_newToken_roundtrip_witness:
  "functions admin_identity = JArr [JStr ''auth'', JStr ''api''] \<and>
   jwt_faithful demo_jwt demo_secret 1700000900 (token_payload demo_now admin_identity None) \<and>
   1700000900 < round_seconds (demo_now + 30 * 60 * 1000) \<and>
   verifyToken demo_jwt demo_secret 1700000900 (newToken demo_jwt demo_secret demo_now admin_identity None)
     \<noteq> JNull \<and>
   field (verifyToken demo_jwt demo_secret 1700000900
            (newToken demo_jwt demo_secret demo_now admin_identity None)) ''name''
     = JStr ''admin'' \<and>
   field (verifyToken demo_jwt demo_secret 1700000900
            (newToken demo_jwt demo_secret demo_now admin_identity None)) ''functions''
     = JArr [JStr ''auth'', JStr ''api'']"
proof -
  have f: "functions admin_identity = JArr [JStr ''auth'', JStr ''api'']"
    by (simp add: admin_identity_def initial_identities_def)
  have n: "name admin_identity = ''admin''"
    by (simp add: admin_identity_def initial_identities_def)
  have j: "jwt_faithful demo_jwt demo_secret 1700000900 (token_payload demo_now admin_identity None)"
    by (simp add: jwt_faithful_def demo_jwt_def table_jwt_def table_sign_def table_verify_def
          table_decode_def token_payload_def round_seconds_def demo_now_def f)
  have t: "1700000900 < round_seconds (demo_now + 30 * 60 * 1000)"
    by (simp add: round_seconds_def demo_now_def)
  show ?thesis
    using verifyToken_newToken_roundtrip [OF f j t] f j t n by simp
qed

section \<open>Uniqueness of names\<close>

text \<open>
  Claim C3. Starting from a store in which every name occurs at most once, after any
  sequence of \<^verbatim>\<open>addIdentity\<close> and \<^verbatim>\<open>removeIdentity\<close> calls the store holds at most one
  record whose name is \<open>n\<close>, for every \<open>n\<close>.
\<close>

theorem identity_names_stay_unique:
  assumes "\<forall>m. length (filter (\<lambda>x. name x = m) identities) \<le> 1"
  shows "length (filter (\<lambda>x. name x = n) (run_store_ops password ops identities)) \<le> 1"
proof -
  from assms have "distinct (map name identities)"
    by (simp add: distinct_map_count)
  then have "distinct (map name (run_store_ops password ops identities))"
    by (rule run_store_ops_distinct)
  then show ?thesis
    by (simp add: distinct_map_count)
qed

theorem identity_names_stay_unique_witness:
  "(\<forall>m. length (filter (\<lambda>x. name x = m) initial_identities) \<le> 1) \<and>
   length (filter (\<lambda>x. name x = ''bob'')
     (run_store_ops keeping_provider
        [AddIdentity bob_details ''u1'', AddIdentity bob_details ''u2'',
         RemoveIdentity (JStr ''admin'')]
        initial_identities)) \<le> 1 \<and>
   map name
     (run_store_ops keeping_provider
        [AddIdentity bob_details ''u1'', AddIdentity bob_details ''u2'',
         RemoveIdentity (JStr ''admin'')]
        initial_identities) = [''bob'']"
proof -
  have u: "\<forall>m. length (filter (\<lambda>x. name x = m) initial_identities) \<le> 1"
    by (simp add: initial_identities_def)
  have r: "map name
     (run_store_ops keeping_provider
        [AddIdentity bob_details ''u1'', AddIdentity bob_details ''u2'',
         RemoveIdentity (JStr ''admin'')]
        initial_identities) = [''bob'']"
    by (simp add: run_store_ops_def addIdentity_def removeIdentity_def validation_defs
          initial_identities_def bob_details_def keeping_provider_def accept_all_def Let_def
          splice1_def)
  show ?thesis
    using identity_names_stay_unique [OF u] u r by blast
qed

section \<open>The allow-list of functions\<close>

text \<open>
  Claim C4. With \<^verbatim>\<open>options.validFunctions = ["api"]\<close> and \<^verbatim>\<open>functions: ["admin"]\<close> requested
  for the stored name \<open>admin\<close>, the result has state \<open>requestError\<close>, but the reason names
  the index \<open>0\<close> of the array, not the function \<open>admin\<close>: the loop enumerates indices.
\<close>

theorem validFunctions_reason_names_index:
  "validateIdentitySpec password
     (JObj [(''name'', JStr ''admin''), (''functions'', JArr [JStr ''admin''])])
     (JObj [(''validFunctions'', JArr [JStr ''api''])]) initial_identities
   = (Return (Plain (JObj [(''state'', JStr ''requestError''),
                           (''reason'', JStr ''Invalid functions named: 0'')])),
      initial_identities)"
  by (simp add: validation_defs initial_identities_def)

section \<open>The scheme word of the authorization header\<close>

text \<open>
  Claim C5, as stated, fails: the token \<open>token-admin\<close> verifies, and the header
  \<^verbatim>\<open>Bearer token-admin\<close> with a capital letter leaves the request unauthenticated.
\<close>

theorem mw_verify_capital_scheme_ignored:
  "truthy (verifyToken demo_jwt demo_secret 1700000900 ''token-admin'') \<and>
   authenticated (mw_verify demo_jwt demo_secret 1700000900
     \<lparr> authorization = Some ''Bearer token-admin'', authenticated = JUndefined \<rparr>) = JUndefined"
  by (simp add: mw_verify_def bearer_match_def verifyToken_def demo_jwt_def table_jwt_def
      table_verify_def table_decode_def token_payload_def round_seconds_def demo_now_def
      admin_identity_def initial_identities_def)

text \<open>
  Claim C5, amended. For a token \<open>t\<close> that is not empty and holds no line terminator, the
  header \<^verbatim>\<open>bearer t\<close> with the scheme word in lower case makes the middleware extract
  \<open>t\<close>, and when \<^verbatim>\<open>verifyToken\<close> succeeds on \<open>t\<close> the decoded claims are attached to the
  request. The scheme word is matched as written: a header that does not start with
  the seven characters \<^verbatim>\<open>bearer \<close> leaves the request as it was.
\<close>

theorem mw_verify_lower_case_scheme:
  "(t \<noteq> [] \<and> \<not> list_ex line_terminator t \<and> truthy (verifyToken lib secret clock t) \<longrightarrow>
      mw_verify lib secret clock \<lparr> authorization = Some (''bearer '' @ t), authenticated = a \<rparr>
        = \<lparr> authorization = Some (''bearer '' @ t),
            authenticated = verifyToken lib secret clock t \<rparr>) \<and>
   (take 7 hdr \<noteq> ''bearer '' \<longrightarrow>
      mw_verify lib secret clock \<lparr> authorization = Some hdr, authenticated = a \<rparr>
        = \<lparr> authorization = Some hdr, authenticated = a \<rparr>)"
proof (intro conjI impI)
  assume h: "t \<noteq> [] \<and> \<not> list_ex line_terminator t \<and> truthy (verifyToken lib secret clock t)"
  then have tw: "takeWhile (\<lambda>c. \<not> line_terminator c) t = t"
    by (simp add: list_ex_iff)
  from h have "t \<noteq> []" by simp
  then have "bearer_match (''bearer '' @ t) = Some t"
    by (simp add: bearer_match_def Let_def tw)
  with h show "mw_verify lib secret clock
       \<lparr> authorization = Some (''bearer '' @ t), authenticated = a \<rparr>
     = \<lparr> authorization = Some (''bearer '' @ t), authenticated = verifyToken lib secret clock t \<rparr>"
    by (simp add: mw_verify_def)
next
  assume "take 7 hdr \<noteq> ''bearer ''"
  then have "bearer_match hdr = None"
    by (simp add: bearer_match_def)
  then show "mw_verify lib secret clock \<lparr> authorization = Some hdr, authenticated = a \<rparr>
     = \<lparr> authorization = Some hdr, authenticated = a \<rparr>"
    by (simp add: mw_verify_def)
qed

theorem mw_verify_lower_case_scheme_witness:
  "''token-admin'' \<noteq> [] \<and> \<not> list_ex line_terminator ''token-admin'' \<and>
   truthy (verifyToken demo_jwt demo_secret 1700000900 ''token-admin'') \<and>
   mw_verify demo_jwt demo_secret 1700000900
     \<lparr> authorization = Some ''bearer token-admin'', authenticated = JUndefined \<rparr>
     = \<lparr> authorization = Some ''bearer token-admin'',
         authenticated = token_payload demo_now admin_identity None \<rparr> \<and>
   take 7 ''BEARER token-admin'' \<noteq> ''bearer '' \<and>
   mw_verify demo_jwt demo_secret 1700000900
     \<lparr> authorization = Some ''BEARER token-admin'', authenticated = JUndefined \<rparr>
     = \<lparr> authorization = Some ''BEARER token-admin'', authenticated = JUndefined \<rparr>"
proof -
  have v: "verifyToken demo_jwt demo_secret 1700000900 ''token-admin''
             = token_payload demo_now admin_identity None"
    by (simp add: verifyToken_def demo_jwt_def table_jwt_def table_verify_def table_decode_def
          token_payload_def round_seconds_def demo_now_def admin_identity_def
          initial_identities_def)
  have h: "''token-admin'' \<noteq> [] \<and> \<not> list_ex line_terminator ''token-admin'' \<and>
           truthy (verifyToken demo_jwt demo_secret 1700000900 ''token-admin'')"
    by (simp add: v line_terminator_def token_payload_def Let_def)
  have k: "take 7 ''BEARER token-admin'' \<noteq> ''bearer ''"
    by simp
  show ?thesis
    using mw_verify_lower_case_scheme
      [of "''token-admin''" demo_jwt demo_secret 1700000900 JUndefined "''BEARER token-admin''"]
      h k v
    by simp
qed

section \<open>Updating an identity\<close>

text \<open>
  Claim C6. \<^verbatim>\<open>setIdentity\<close> with the details \<^verbatim>\<open>{name: 'admin'}\<close>, a name that exists in the
  store, does not return a result object: it throws a ReferenceError.
\<close>

theorem setIdentity_existing_name_throws:
  "setIdentity password (JObj [(''name'', JStr ''admin'')]) initial_identities
     = (Throw ReferenceError, initial_identities)"
  by (simp add: setIdentity_def validation_defs initial_identities_def)

section \<open>Status of the authentication endpoint\<close>

text \<open>
  Claim C7. A request body naming the stored identity \<open>admin\<close> with an authentication type
  that is not registered makes \<^verbatim>\<open>authenticate\<close> return the state
  \<open>serverConfigurationError\<close>; the handler then sends the result without setting a
  status, so a response that starts at 200 leaves at 200, not at 500.
\<close>

theorem post_handler_unmapped_state_keeps_status:
  "post_handler lib secret now password
     (JObj [(''name'', JStr ''admin''), (''auth'', JObj [(''type'', JStr ''ldap'')])])
     initial_identities \<lparr> statusCode = 200, body = None \<rparr>
   = (Return \<lparr> statusCode = 200,
               body = Some (Plain (JObj [(''state'', JStr ''serverConfigurationError''),
                 (''reason'', JStr ''Invalid authentication type specified for user: ldap'')])) \<rparr>,
      initial_identities)"
  by (simp add: post_handler_def authenticate_def validation_defs initial_identities_def)

section \<open>The format of names\<close>

text \<open>
  Claim C8. The name \<^verbatim>\<open>bad name!\<close> holds a space and an exclamation mark, both outside
  the pattern, and still passes the format check, because one character in the class is
  enough for the unanchored expression. On the built-in store the call fails only at
  the store lookup (\<^verbatim>\<open>No such user.\<close>); \<^verbatim>\<open>addIdentity\<close> stores an identity under that name,
  and then the same call succeeds.
\<close>

theorem validateIdentitySpec_bad_name_passes_format:
  "regex_matches ''bad name!'' \<and>
   validateIdentitySpec password (JObj [(''name'', JStr ''bad name!'')]) (JObj []) initial_identities
     = (Return (Plain (JObj [(''state'', JStr ''requestError''),
                             (''reason'', JStr ''No such user.'')])),
        initial_identities) \<and>
   map name (snd (addIdentity keeping_provider ''u1'' bad_name_details initial_identities))
     = [''admin'', ''bad name!''] \<and>
   fst (validateIdentitySpec password (JObj [(''name'', JStr ''bad name!'')]) (JObj [])
          (snd (addIdentity keeping_provider ''u1'' bad_name_details initial_identities)))
     = Return (Validated
         \<lparr> id' = None, name = ''bad name!'', auth = JUndefined, functions = JArr [] \<rparr> None)"
proof -
  have a: "snd (addIdentity keeping_provider ''u1'' bad_name_details initial_identities)
             = initial_identities @
               [\<lparr> id' = Some ''u1'', name = ''bad name!'',
                  auth = JObj [(''type'', JStr ''password''), (''password'', JStr ''x'')],
                  functions = JArr [] \<rparr>]"
    by (simp add: addIdentity_def validation_defs initial_identities_def bad_name_details_def
          keeping_provider_def accept_all_def Let_def)
  have m: "regex_matches ''bad name!''"
    by (simp add: regex_matches_def regex_class_def)
  have l: "validateIdentitySpec password (JObj [(''name'', JStr ''bad name!'')]) (JObj [])
             initial_identities
           = (Return (Plain (JObj [(''state'', JStr ''requestError''),
                                   (''reason'', JStr ''No such user.'')])),
              initial_identities)"
    by (simp add: validation_defs initial_identities_def)
  have s: "fst (validateIdentitySpec password (JObj [(''name'', JStr ''bad name!'')]) (JObj [])
                  (snd (addIdentity keeping_provider ''u1'' bad_name_details initial_identities)))
           = Return (Validated
               \<lparr> id' = None, name = ''bad name!'', auth = JUndefined, functions = JArr [] \<rparr> None)"
    unfolding a by (simp add: validation_defs initial_identities_def)
  show ?thesis
    using a m l s by (simp add: initial_identities_def)
qed

section \<open>Validation reads the store only\<close>

text \<open>
  Claim C9. For every details and options value, \<^verbatim>\<open>validateIdentitySpec\<close> hands the store
  back as it received it, whatever it returns or throws.
\<close>

theorem validateIdentitySpec_leaves_store:
  "snd (validateIdentitySpec password details options identities) = identities"
  by (simp add: validateIdentitySpec_def Let_def split: sum.splits jsval.splits)

section \<open>A token for an identity without functions\<close>

text \<open>
  Claim C10. For an identity whose \<open>functions\<close> is \<open>undefined\<close>, and a library that is
  faithful at the payload \<^verbatim>\<open>newToken\<close> builds, verifying the new token before its expiry
  returns a claims object with no \<open>functions\<close> key: reading it gives \<open>undefined\<close>, not an
  empty list. The payload that is signed has no \<open>functions\<close> key in the first place.
\<close>

theorem verifyToken_without_functions:
  assumes "functions identity = JUndefined"
    and "jwt_faithful lib secret clock (token_payload now identity None)"
    and "clock < round_seconds (now + 30 * 60 * 1000)"
  shows "(\<exists>payload. token_payload now identity None = JObj payload \<and>
            map_of payload ''functions'' = None) \<and>
         (\<exists>claims.
            verifyToken lib secret clock (newToken lib secret now identity None) = JObj claims \<and>
            map_of claims ''functions'' = None \<and>
            field (JObj claims) ''functions'' \<noteq> JArr [])"
  using assms
  by (simp add: verifyToken_def newToken_def jwt_faithful_def token_payload_def)

theorem verifyToken_without_functions_witness:
  "functions guest_identity = JUndefined \<and>
   jwt_faithful demo_jwt demo_secret 1700000900 (token_payload demo_now guest_identity None) \<and>
   1700000900 < round_seconds (demo_now + 30 * 60 * 1000) \<and>
   (\<exists>payload. token_payload demo_now guest_identity None = JObj payload \<and>
      map_of payload ''functions'' = None) \<and>
   (\<exists>claims.
      verifyToken demo_jwt demo_secret 1700000900
        (newToken demo_jwt demo_secret demo_now guest_identity None) = JObj claims \<and>
      map_of claims ''functions'' = None \<and>
      field (JObj claims) ''functions'' \<noteq> JArr [])"
proof -
  have f: "functions guest_identity = JUndefined"
    by (simp add: guest_identity_def)
  have j: "jwt_faithful demo_jwt demo_secret 1700000900 (token_payload demo_now guest_identity None)"
    by (simp add: jwt_faithful_def demo_jwt_def table_jwt_def table_sign_def table_verify_def
          table_decode_def token_payload_def round_seconds_def demo_now_def guest_identity_def
          admin_identity_def initial_identities_def)
  have t: "1700000900 < round_seconds (demo_now + 30 * 60 * 1000)"
    by (simp add: round_seconds_def demo_now_def)
  show ?thesis
    using verifyToken_without_functions [OF f j t] f j t by blast
qed

end
